theory Spec2Isabelle
  imports Complex_Main "HOL-Library.AList"
begin

section \<open>JavaScript strings\<close>

text \<open>
  A JavaScript string is a sequence of UTF-16 code units; \<open>length\<close>, \<open>slice\<close>,
  \<open>startsWith\<close>, \<open>includes\<close> and \<open>trim\<close> all count code units. A code unit is a
  natural number below 65536. \<open>u16\<close> turns an ASCII literal into its code units; a
  character of the source outside ASCII (the em dash U+2014 of some pool texts) is
  written as its code unit.
\<close>

type_synonym jsstring = "nat list"

definition u16 :: "string \<Rightarrow> jsstring" where
  "u16 s = map of_char s"

text \<open>
  \<open>String.prototype.trim\<close> removes WhiteSpace and LineTerminator code units from both
  ends: TAB, LF, VT, FF, CR, SP, NBSP, U+1680, U+2000 to U+200A, U+2028, U+2029, U+202F,
  U+205F, U+3000 and U+FEFF.
\<close>

definition js_whitespace :: "nat \<Rightarrow> bool" where
  "js_whitespace c \<longleftrightarrow>
     (9 \<le> c \<and> c \<le> 13) \<or> c = 32 \<or> c = 160 \<or> c = 5760 \<or> (8192 \<le> c \<and> c \<le> 8202) \<or>
     c = 8232 \<or> c = 8233 \<or> c = 8239 \<or> c = 8287 \<or> c = 12288 \<or> c = 65279"

definition trim :: "jsstring \<Rightarrow> jsstring" where
  "trim s = rev (dropWhile js_whitespace (rev (dropWhile js_whitespace s)))"

definition startsWith :: "jsstring \<Rightarrow> jsstring \<Rightarrow> bool" where
  "startsWith s p \<longleftrightarrow> take (length p) s = p"

definition endsWith :: "jsstring \<Rightarrow> jsstring \<Rightarrow> bool" where
  "endsWith s p \<longleftrightarrow> length p \<le> length s \<and> drop (length s - length p) s = p"




section \<open>JSON values and \<open>JSON.parse\<close>\<close>

text \<open>
  The values \<open>JSON.parse\<close> can return. A number keeps the text of its literal (its
  binary64 value is not modelled). An object is the list of its properties in the order
  of their first occurrence, each with the value of its last occurrence (JavaScript
  lists the names that are array indices first; nothing here depends on the order).
\<close>

datatype json =
    JNull
  | JBool bool
  | JNum jsstring
  | JStr jsstring
  | JArr "json list"
  | JObj "(jsstring \<times> json) list"

datatype token =
    LBrace | RBrace | LBrack | RBrack | Colon | Comma
  | StrTok jsstring | NumTok jsstring | TrueTok | FalseTok | NullTok

text \<open>JSON white space is SP, TAB, LF and CR only.\<close>

definition json_ws :: "nat \<Rightarrow> bool" where
  "json_ws c \<longleftrightarrow> c = 32 \<or> c = 9 \<or> c = 10 \<or> c = 13"

definition is_digit :: "nat \<Rightarrow> bool" where
  "is_digit c \<longleftrightarrow> 48 \<le> c \<and> c \<le> 57"

definition hex_digit :: "nat \<Rightarrow> nat option" where
  "hex_digit c =
     (if 48 \<le> c \<and> c \<le> 57 then Some (c - 48)
      else if 97 \<le> c \<and> c \<le> 102 then Some (c - 87)
      else if 65 \<le> c \<and> c \<le> 70 then Some (c - 55)
      else None)"

definition hex4 :: "nat \<Rightarrow> nat \<Rightarrow> nat \<Rightarrow> nat \<Rightarrow> nat option" where
  "hex4 a b c d =
     (case (hex_digit a, hex_digit b, hex_digit c, hex_digit d) of
        (Some w, Some x, Some y, Some z) \<Rightarrow> Some (((w * 16 + x) * 16 + y) * 16 + z)
      | _ \<Rightarrow> None)"

text \<open>The single-character escapes: quote, backslash, slash, b, f, n, r, t.\<close>

definition escape :: "nat \<Rightarrow> nat option" where
  "escape e =
     (if e = 34 \<or> e = 92 \<or> e = 47 then Some e
      else if e = 98 then Some 8
      else if e = 102 then Some 12
      else if e = 110 then Some 10
      else if e = 114 then Some 13
      else if e = 116 then Some 9
      else None)"

text \<open>
  The rest of a string literal after its opening quote: the decoded string and the
  number of code units read, closing quote included. A control code unit below U+0020
  or an unknown escape is a syntax error.
\<close>

fun lex_string :: "jsstring \<Rightarrow> (jsstring \<times> nat) option" where
  "lex_string [] = None"
| "lex_string (c # cs) =
     (if c = 34 then Some ([], 1)
      else if c = 92 then
        (case cs of
           [] \<Rightarrow> None
         | e # r \<Rightarrow>
             if e = 117 then
               (case r of
                  h1 # h2 # h3 # h4 # r' \<Rightarrow>
                    (case hex4 h1 h2 h3 h4 of
                       None \<Rightarrow> None
                     | Some u \<Rightarrow> map_option (\<lambda>(s, k). (u # s, k + 6)) (lex_string r'))
                | _ \<Rightarrow> None)
             else
               (case escape e of
                  None \<Rightarrow> None
                | Some d \<Rightarrow> map_option (\<lambda>(s, k). (d # s, k + 2)) (lex_string r)))
      else if c < 32 then None
      else map_option (\<lambda>(s, k). (c # s, k + 1)) (lex_string cs))"

text \<open>
  A number literal is
  \<open>-? (0 | [1-9][0-9]*) (. [0-9]+)? ([eE] [+-]? [0-9]+)?\<close>.
\<close>

definition is_num_char :: "nat \<Rightarrow> bool" where
  "is_num_char c \<longleftrightarrow> is_digit c \<or> c = 45 \<or> c = 43 \<or> c = 46 \<or> c = 101 \<or> c = 69"

definition valid_exponent :: "jsstring \<Rightarrow> bool" where
  "valid_exponent s =
     (case s of
        [] \<Rightarrow> True
      | e # r \<Rightarrow>
          (e = 101 \<or> e = 69) \<and>
          (let ds = (case r of [] \<Rightarrow> [] | g # r' \<Rightarrow> if g = 43 \<or> g = 45 then r' else r)
           in ds \<noteq> [] \<and> list_all is_digit ds))"

definition valid_fraction :: "jsstring \<Rightarrow> bool" where
  "valid_fraction s =
     (case s of
        [] \<Rightarrow> True
      | d # r \<Rightarrow>
          if d = 46 then takeWhile is_digit r \<noteq> [] \<and> valid_exponent (dropWhile is_digit r)
          else valid_exponent s)"

definition valid_number :: "jsstring \<Rightarrow> bool" where
  "valid_number s =
     (let u = (case s of [] \<Rightarrow> [] | m # r \<Rightarrow> if m = 45 then r else s);
          ip = takeWhile is_digit u
      in (ip = [48] \<or> (ip \<noteq> [] \<and> hd ip \<noteq> 48)) \<and> valid_fraction (dropWhile is_digit u))"

definition punctuation :: "nat \<Rightarrow> token option" where
  "punctuation c =
     (if c = 123 then Some LBrace
      else if c = 125 then Some RBrace
      else if c = 91 then Some LBrack
      else if c = 93 then Some RBrack
      else if c = 58 then Some Colon
      else if c = 44 then Some Comma
      else None)"

text \<open>
  The token that starts with the code unit \<open>c\<close>, the text after \<open>c\<close> being \<open>cs\<close>: the
  token and how many code units of \<open>cs\<close> belong to it. A number token is the longest
  run of number characters, which must be a number literal: a shorter literal followed
  by another number character is a syntax error in any case.
\<close>

definition token_at :: "nat \<Rightarrow> jsstring \<Rightarrow> (token \<times> nat) option" where
  "token_at c cs =
     (case punctuation c of
        Some t \<Rightarrow> Some (t, 0)
      | None \<Rightarrow>
          if c = 34 then map_option (\<lambda>(s, k). (StrTok s, k)) (lex_string cs)
          else if c = 45 \<or> is_digit c then
            (let n = c # takeWhile is_num_char cs
             in if valid_number n then Some (NumTok n, length n - 1) else None)
          else if c # take 3 cs = u16 ''true'' then Some (TrueTok, 3)
          else if c # take 4 cs = u16 ''false'' then Some (FalseTok, 4)
          else if c # take 3 cs = u16 ''null'' then Some (NullTok, 3)
          else None)"

fun lex :: "jsstring \<Rightarrow> token list option" where
  "lex [] = Some []"
| "lex (c # cs) =
     (if json_ws c then lex cs
      else
        (case token_at c cs of
           None \<Rightarrow> None
         | Some (t, k) \<Rightarrow> map_option ((#) t) (lex (drop k cs))))"

text \<open>
  The grammar over tokens, with the open arrays and objects on a stack. \<open>InArr vs\<close> is an
  array with the elements \<open>vs\<close> read so far; \<open>InObj ms k\<close> is an object with the
  properties \<open>ms\<close> read so far, whose property \<open>k\<close> is being read. A property name that
  occurs again replaces the value and keeps the place (\<open>AList.update\<close>).
\<close>

datatype frame = InArr "json list" | InObj "(jsstring \<times> json) list" jsstring

fun parse_value :: "frame list \<Rightarrow> token list \<Rightarrow> json option"
  and after_value :: "json \<Rightarrow> frame list \<Rightarrow> token list \<Rightarrow> json option" where
  "parse_value st [] = None"
| "parse_value st (t # ts) =
     (case t of
        NullTok \<Rightarrow> after_value JNull st ts
      | TrueTok \<Rightarrow> after_value (JBool True) st ts
      | FalseTok \<Rightarrow> after_value (JBool False) st ts
      | NumTok n \<Rightarrow> after_value (JNum n) st ts
      | StrTok s \<Rightarrow> after_value (JStr s) st ts
      | LBrack \<Rightarrow>
          (case ts of
             RBrack # ts' \<Rightarrow> after_value (JArr []) st ts'
           | _ \<Rightarrow> parse_value (InArr [] # st) ts)
      | LBrace \<Rightarrow>
          (case ts of
             RBrace # ts' \<Rightarrow> after_value (JObj []) st ts'
           | StrTok k # Colon # ts' \<Rightarrow> parse_value (InObj [] k # st) ts'
           | _ \<Rightarrow> None)
      | _ \<Rightarrow> None)"
| "after_value v [] ts = (if ts = [] then Some v else None)"
| "after_value v (InArr vs # st) ts =
     (case ts of
        Comma # ts' \<Rightarrow> parse_value (InArr (vs @ [v]) # st) ts'
      | RBrack # ts' \<Rightarrow> after_value (JArr (vs @ [v])) st ts'
      | _ \<Rightarrow> None)"
| "after_value v (InObj ms k # st) ts =
     (case ts of
        Comma # StrTok k' # Colon # ts' \<Rightarrow> parse_value (InObj (AList.update k v ms) k' # st) ts'
      | RBrace # ts' \<Rightarrow> after_value (JObj (AList.update k v ms)) st ts'
      | _ \<Rightarrow> None)"

text \<open>\<open>JSON.parse(text)\<close>; \<open>None\<close> is the SyntaxError it throws.\<close>

definition JSON_parse :: "jsstring \<Rightarrow> json option" where
  "JSON_parse s = (case lex s of None \<Rightarrow> None | Some ts \<Rightarrow> parse_value [] ts)"

section \<open>Array reads and 32-bit integer operators\<close>

text \<open>
  \<open>arr[i]\<close> for a number \<open>i\<close>: the element when \<open>i\<close> is an index of the array,
  \<open>undefined\<close> (\<open>None\<close>) otherwise, in particular for a negative \<open>i\<close>.
\<close>

definition js_at :: "'a list \<Rightarrow> int \<Rightarrow> 'a option" where
  "js_at arr i = (if 0 \<le> i \<and> i < int (length arr) then Some (arr ! nat i) else None)"

text \<open>
  \<open>a % b\<close> for integers with \<open>b\<close> positive: the remainder has the sign of the dividend.
\<close>

definition js_rem :: "int \<Rightarrow> int \<Rightarrow> int" where
  "js_rem a b = (if a < 0 then - ((- a) mod b) else a mod b)"

text \<open>
  The operator \<open>>>\<close> first converts its left operand to a signed 32-bit integer
  (ToInt32: modulo \<open>2 ^ 32\<close>, read as two's complement), then shifts with sign
  extension, which is the division by \<open>2 ^ k\<close> rounded down.
\<close>

definition toInt32 :: "int \<Rightarrow> int" where
  "toInt32 x = (let m = x mod 2 ^ 32 in if m < 2 ^ 31 then m else m - 2 ^ 32)"

definition shift_right :: "int \<Rightarrow> nat \<Rightarrow> int" where
  "shift_right x k = toInt32 x div 2 ^ k"

section \<open>The environment of a request\<close>

text \<open>
  What a request handler reads from outside: the clock (\<open>Date.now()\<close>, milliseconds
  since the epoch, on a clock that is not set before 1970), the configured key, and the
  behaviour of the external model. The \<open>i\<close>-th call of \<open>model.generateContent\<close>, counted
  from 1, either throws an error or returns a result, whose \<open>response.text()\<close> returns
  the text or throws in turn.
\<close>

datatype js_error = Error jsstring

datatype model_result = Text jsstring | TextThrows js_error

record env =
  Date_now :: nat
  GEMINI_API_KEY :: "jsstring option"
  generateContent :: "nat \<Rightarrow> js_error + model_result"

section \<open>The fallback reading generator\<close>

text \<open>
  The object \<open>generateLocalReading\<close> returns. A property is \<open>None\<close> when the expression
  that computes it is \<open>undefined\<close>.
\<close>

record line =
  observation :: "jsstring option"
  meaning :: "jsstring option"

record reading =
  heartLine :: line
  headLine :: line
  lifeLine :: line
  fateLine :: line
  overallReading :: "jsstring option"
  advice :: "jsstring option"

text \<open>
  The three selectors of \<open>generateLocalReading\<close>, with the seed as an argument. The seed
  itself is not converted to 32 bits in \<open>pick\<close>; it is in \<open>pick2\<close> and \<open>pick3\<close>, by the
  shift.
\<close>

definition pick :: "nat \<Rightarrow> 'a list \<Rightarrow> 'a option" where
  "pick seed arr = js_at arr (js_rem (int seed) (int (length arr)))"

definition pick2 :: "nat \<Rightarrow> 'a list \<Rightarrow> 'a option" where
  "pick2 seed arr = js_at arr (js_rem (shift_right (int seed) 4) (int (length arr)))"

definition pick3 :: "nat \<Rightarrow> 'a list \<Rightarrow> 'a option" where
  "pick3 seed arr = js_at arr (js_rem (shift_right (int seed) 8) (int (length arr)))"

definition heartObservations :: "jsstring list" where
  \<open>heartObservations =
     [u16 ''Your heart line curves gracefully upward, touching the base of your index finger'',
      u16 ''A deep, clear heart line extends across your palm with gentle undulations'',
      u16 ''Your heart line shows a slight fork at its end, branching toward wisdom'',
      u16 ''The heart line on your palm runs long and unbroken, with subtle depth variations'',
      u16 ''A beautifully curved heart line sweeps across your palm with quiet strength'']\<close>

definition heartMeanings :: "jsstring list" where
  \<open>heartMeanings =
     [u16 ''You possess a deeply romantic nature and form lasting emotional bonds with those you love.'',
      u16 ''Your emotional intelligence guides you through life's complexities with grace and understanding.'',
      u16 ''You have the capacity for profound love, though you choose carefully where to place your heart.'',
      u16 ''Your emotional world is rich and textured'' @ [8212] @ u16 ''you feel deeply and love with intention.'',
      u16 ''You balance heart and mind beautifully, making decisions that honor both logic and feeling.'']\<close>

definition headObservations :: "jsstring list" where
  \<open>headObservations =
     [u16 ''Your head line extends with clarity and purpose across the center of your palm'',
      u16 ''A gently sloping head line indicates a blend of creative and analytical thinking'',
      u16 ''The head line shows depth and consistency, curving slightly downward toward imagination'',
      u16 ''Your head line begins strongly, showing independence of thought from an early age'',
      u16 ''A long, clear head line stretches across your palm with remarkable definition'']\<close>

definition headMeanings :: "jsstring list" where
  \<open>headMeanings =
     [u16 ''You possess a sharp, analytical mind that can cut through confusion to find truth.'',
      u16 ''Your thinking blends creativity with practicality'' @ [8212] @ u16 ''you dream big but plan wisely.'',
      u16 ''Mental clarity is your gift; you see patterns others miss and connect disparate ideas.'',
      u16 ''You think independently and aren't easily swayed by popular opinion or passing trends.'',
      u16 ''Your intellectual curiosity knows no bounds'' @ [8212] @ u16 ''learning is a lifelong joy for you.'']\<close>

definition lifeObservations :: "jsstring list" where
  \<open>lifeObservations =
     [u16 ''The life line sweeps in a wide arc around your thumb, full of vitality'',
      u16 ''Your life line shows remarkable depth and clarity, curving with confidence'',
      u16 ''A strong life line encircles the mount of Venus with steady determination'',
      u16 ''The life line begins boldly and maintains its strength throughout its journey'',
      u16 ''Your life line shows subtle variations that speak to meaningful life transitions'']\<close>

definition lifeMeanings :: "jsstring list" where
  \<open>lifeMeanings =
     [u16 ''You have abundant life energy and the resilience to overcome any challenge.'',
      u16 ''Your vitality is strong'' @ [8212] @ u16 ''you bring enthusiasm and energy to everything you do.'',
      u16 ''Major positive transitions await you; the universe is aligning opportunities on your path.'',
      u16 ''You have deep reserves of strength that emerge precisely when you need them most.'',
      u16 ''Your life force is vibrant; you inspire others simply by being authentically yourself.'']\<close>

definition adviceList :: "jsstring list" where
  \<open>adviceList =
     [u16 ''Trust your intuition'' @ [8212] @ u16 ''it has been sharpened by experience and will not lead you astray.'',
      u16 ''The path ahead may seem unclear, but each step you take illuminates the next. Keep moving.'',
      u16 ''Open your heart to new possibilities; the universe is preparing gifts you cannot yet imagine.'',
      u16 ''Balance is your key to fulfillment'' @ [8212] @ u16 ''nurture both your ambitions and your need for peace.'',
      u16 ''Your greatest strength lies in your authenticity. Never dim your light for others' comfort.'',
      u16 ''The spirits remind you: what you seek is also seeking you. Remain open and patient.'',
      u16 ''Release what no longer serves you; your hands are meant to receive new blessings.'']\<close>

text \<open>
  \<open>dominantHand\<close> and \<open>focusArea\<close> are declared \<open>string | null\<close>; \<open>None\<close> is \<open>null\<close> (or
  \<open>undefined\<close>). A string is truthy when it is not empty.
\<close>

definition truthy :: "jsstring option \<Rightarrow> bool" where
  "truthy v \<longleftrightarrow> v \<noteq> None \<and> v \<noteq> Some []"

definition overallReadings :: "jsstring option \<Rightarrow> jsstring option \<Rightarrow> jsstring list" where
  \<open>overallReadings dominantHand focusArea =
     [u16 ''Your palm reveals a beautiful harmony between heart, mind, and spirit. The lines suggest someone who has walked through challenges with grace and emerged wiser. '' @
      (if dominantHand = Some (u16 ''left'')
       then u16 ''Your left hand shows the gifts you were born with'' @ [8212] @ u16 ''and they are considerable.''
       else u16 ''Your right hand shows what you're actively creating'' @ [8212] @ u16 ''and it's remarkable.'') @
      u16 '' A period of growth and fulfillment lies ahead.'',
      u16 ''The Oracle sees in your palm a soul on the cusp of transformation. Your lines speak of accumulated wisdom and untapped potential waiting to bloom. '' @
      (if truthy focusArea
       then u16 ''In matters of '' @ the focusArea @ u16 '', the spirits whisper of positive change approaching.''
       else u16 ''Trust in the journey that unfolds before you.'') @
      u16 '' The universe recognizes your efforts.'',
      u16 ''Your palm tells a story of resilience and hope. The major lines align in a pattern suggesting that past struggles are transforming into future strengths. '' @
      (if dominantHand = Some (u16 ''right'')
       then u16 ''Your active hand shows you're taking control of your destiny.''
       else u16 ''Your receptive hand reveals deep intuitive gifts.'') @
      u16 '' Beautiful chapters await.'',
      u16 ''The lines of your palm weave a tapestry of promise. Heart and head work in concert, guiding you toward meaningful experiences and genuine connections. '' @
      (if truthy focusArea
       then u16 ''The energy around '' @ the focusArea @ u16 '' is particularly bright in your reading.''
       else u16 ''All aspects of your life are moving toward balance.'') @
      u16 '' Trust your inner compass.'',
      u16 ''Your palm radiates quiet strength and untold potential. The Oracle perceives a soul that has learned much and has even more to discover. '' @
      (if dominantHand = Some (u16 ''left'')
       then u16 ''Your innate talents are your greatest treasures.''
       else u16 ''Your actions are shaping a future filled with purpose.'') @
      u16 '' Walk forward with confidence.'']\<close>

definition generateLocalReading :: "env \<Rightarrow> jsstring option \<Rightarrow> jsstring option \<Rightarrow> reading" where
  \<open>generateLocalReading e dominantHand focusArea =
     (let seed = Date_now e in
      \<lparr>heartLine = \<lparr>observation = pick seed heartObservations, meaning = pick2 seed heartMeanings\<rparr>,
       headLine = \<lparr>observation = pick seed headObservations, meaning = pick2 seed headMeanings\<rparr>,
       lifeLine = \<lparr>observation = pick seed lifeObservations, meaning = pick2 seed lifeMeanings\<rparr>,
       fateLine =
         \<lparr>observation = Some (u16 ''A subtle fate line emerges from the base of your palm, suggesting destiny is actively unfolding.''),
          meaning = Some (u16 ''Your life's direction is becoming clearer; trust the path that reveals itself.'')\<rparr>,
       overallReading = pick3 seed (overallReadings dominantHand focusArea),
       advice = pick seed adviceList\<rparr>)\<close>

section \<open>The model call with retries\<close>

text \<open>
  What \<open>callGeminiWithRetry\<close> does, in order: \<open>Call i\<close> is the \<open>i\<close>-th call of
  \<open>model.generateContent\<close>, \<open>LogFailure i err\<close> the \<open>console.error\<close> after it threw
  \<open>err\<close>, \<open>Sleep ms\<close> the wait of \<open>ms\<close> milliseconds.
\<close>

datatype event = Call nat | LogFailure nat js_error | Sleep nat

text \<open>
  The \<open>for\<close> loop, from the value \<open>attempt\<close> of its counter on, with \<open>lastError\<close> and the
  events so far. The prompt and the image data only go to the external model, whose
  behaviour for this request is \<open>model\<close>. With nothing caught, \<open>throw lastError\<close> throws
  \<open>null\<close> (\<open>Inl None\<close>).
\<close>

function retry_loop ::
  "(nat \<Rightarrow> js_error + model_result) \<Rightarrow> nat \<Rightarrow> nat \<Rightarrow> js_error option \<Rightarrow> event list \<Rightarrow>
     (js_error option + model_result) \<times> event list" where
  "retry_loop model maxRetries attempt lastError evs =
     (if attempt \<le> maxRetries then
        (case model attempt of
           Inr result \<Rightarrow> (Inr result, evs @ [Call attempt])
         | Inl error \<Rightarrow>
             retry_loop model maxRetries (attempt + 1) (Some error)
               (evs @ [Call attempt, LogFailure attempt error] @
                  (if attempt < maxRetries then [Sleep (500 * attempt)] else [])))
      else (Inl lastError, evs))"
  by pat_completeness auto
termination
  by (relation "measure (\<lambda>(model, maxRetries, attempt, lastError, evs). maxRetries + 1 - attempt)")
    auto

definition callGeminiWithRetry ::
  "(nat \<Rightarrow> js_error + model_result) \<Rightarrow> nat \<Rightarrow> (js_error option + model_result) \<times> event list" where
  "callGeminiWithRetry model maxRetries = retry_loop model maxRetries 1 None []"

definition calls :: "event list \<Rightarrow> nat list" where
  "calls evs = concat (map (\<lambda>ev. case ev of Call i \<Rightarrow> [i] | _ \<Rightarrow> []) evs)"

definition sleeps :: "event list \<Rightarrow> nat list" where
  "sleeps evs = concat (map (\<lambda>ev. case ev of Sleep ms \<Rightarrow> [ms] | _ \<Rightarrow> []) evs)"

section \<open>The reading endpoint\<close>

record response =
  status :: nat
  body :: json

text \<open>
  \<open>NextResponse.json(reading)\<close> for the generated object: \<open>JSON.stringify\<close> leaves out a
  property whose value is \<open>undefined\<close>.
\<close>

definition property :: "jsstring \<Rightarrow> jsstring option \<Rightarrow> (jsstring \<times> json) list" where
  "property k v = (case v of None \<Rightarrow> [] | Some s \<Rightarrow> [(k, JStr s)])"

definition line_json :: "line \<Rightarrow> json" where
  "line_json l =
     JObj (property (u16 ''observation'') (observation l) @ property (u16 ''meaning'') (meaning l))"

definition reading_json :: "reading \<Rightarrow> json" where
  "reading_json r =
     JObj ([(u16 ''heartLine'', line_json (heartLine r)),
            (u16 ''headLine'', line_json (headLine r)),
            (u16 ''lifeLine'', line_json (lifeLine r)),
            (u16 ''fateLine'', line_json (fateLine r))] @
           property (u16 ''overallReading'') (overallReading r) @
           property (u16 ''advice'') (advice r))"

text \<open>
  Reading one of the properties \<open>image\<close>, \<open>dominantHand\<close>, \<open>focusArea\<close> of a parsed body
  that is not \<open>null\<close>: the property of an object, \<open>undefined\<close> (\<open>None\<close>) on an object
  without it and on a number, boolean, string or array.
\<close>

fun get :: "json \<Rightarrow> jsstring \<Rightarrow> json option" where
  "get (JObj ms) k = map_of ms k"
| "get _ k = None"

text \<open>
  \<open>!v\<close> holds for \<open>undefined\<close>, \<open>null\<close>, \<open>false\<close>, the empty string and zero. A number
  literal is zero when its significand has no digit other than 0 (a literal so small
  that its binary64 value is zero is not told apart).
\<close>

definition zero_literal :: "jsstring \<Rightarrow> bool" where
  "zero_literal n \<longleftrightarrow> list_all (\<lambda>c. \<not> (49 \<le> c \<and> c \<le> 57)) (takeWhile (\<lambda>c. c \<noteq> 101 \<and> c \<noteq> 69) n)"

fun falsy :: "json option \<Rightarrow> bool" where
  "falsy None = True"
| "falsy (Some JNull) = True"
| "falsy (Some (JBool b)) = (\<not> b)"
| "falsy (Some (JStr s)) = (s = [])"
| "falsy (Some (JNum n)) = zero_literal n"
| "falsy (Some (JArr vs)) = False"
| "falsy (Some (JObj ms)) = False"

fun is_string :: "json option \<Rightarrow> bool" where
  "is_string (Some (JStr s)) = True"
| "is_string _ = False"

text \<open>
  \<open>dominantHand\<close> and \<open>focusArea\<close> are declared \<open>string | null\<close>: a string is itself, and
  \<open>null\<close> and \<open>undefined\<close> are \<open>None\<close>. A request with a number, boolean, array or object
  there is outside the declared type; \<open>typed_context\<close> says that a body is inside it.
\<close>

fun string_or_null :: "json option \<Rightarrow> jsstring option" where
  "string_or_null (Some (JStr s)) = Some s"
| "string_or_null _ = None"



text \<open>
  \<open>!process.env.GEMINI_API_KEY || process.env.GEMINI_API_KEY === "your_gemini_api_key_here"\<close>
\<close>

definition no_api_key :: "env \<Rightarrow> bool" where
  "no_api_key e \<longleftrightarrow>
     (case GEMINI_API_KEY e of
        None \<Rightarrow> True
      | Some k \<Rightarrow> k = [] \<or> k = u16 ''your_gemini_api_key_here'')"

text \<open>The cleanup of the text before the second \<open>JSON.parse\<close>.\<close>

definition cleanup :: "jsstring \<Rightarrow> jsstring" where
  "cleanup text =
     (let c0 = trim text;
          c1 = (if startsWith c0 (u16 ''```json'') then drop 7 c0 else c0);
          c2 = (if startsWith c1 (u16 ''```'') then drop 3 c1 else c1);
          c3 = (if endsWith c2 (u16 ''```'') then take (length c2 - 3) c2 else c2)
      in trim c3)"

definition parse_failure :: "jsstring \<Rightarrow> response" where
  "parse_failure text =
     \<lparr>status = 500,
      body = JObj [(u16 ''error'', JStr (u16 ''Failed to parse oracle's response'')),
                   (u16 ''details'', JStr text)]\<rparr>"

text \<open>
  The two nested \<open>try\<close> blocks of \<open>POST\<close> on the text of the model (the specification's
  \<open>ResponseNormalizer.normalize\<close>): what either \<open>JSON.parse\<close> returns is sent as it is.
\<close>

definition normalize_text :: "jsstring \<Rightarrow> response" where
  "normalize_text text =
     (case JSON_parse text of
        Some reading \<Rightarrow> \<lparr>status = 200, body = reading\<rparr>
      | None \<Rightarrow>
          (case JSON_parse (cleanup text) of
             Some reading \<Rightarrow> \<lparr>status = 200, body = reading\<rparr>
           | None \<Rightarrow> parse_failure text))"

definition no_image :: response where
  "no_image = \<lparr>status = 400, body = JObj [(u16 ''error'', JStr (u16 ''No image provided''))]\<rparr>"

text \<open>The local reading as a response, as in the \<open>catch\<close> block and the branch without a key.\<close>

definition fallback :: "env \<Rightarrow> jsstring option \<Rightarrow> jsstring option \<Rightarrow> response" where
  "fallback e dominantHand focusArea =
     \<lparr>status = 200, body = reading_json (generateLocalReading e dominantHand focusArea)\<rparr>"

text \<open>
  The handler, on the decoded text of the request body. Everything thrown inside its \<open>try\<close>
  block ends in the \<open>catch\<close> block, with \<open>dominantHand\<close> and \<open>focusArea\<close> as they are at
  that moment: \<open>request.json()\<close> on a body that is not JSON and \<open>body.image\<close> on \<open>null\<close>
  (both still \<open>null\<close>), \<open>image.split\<close> on an image that is not a string,
  \<open>callGeminiWithRetry\<close> and \<open>response.text()\<close>.
\<close>

definition POST :: "env \<Rightarrow> jsstring \<Rightarrow> response" where
  "POST e request =
     (case JSON_parse request of
        None \<Rightarrow> fallback e None None
      | Some b \<Rightarrow>
          if b = JNull then fallback e None None
          else
            (let image = get b (u16 ''image'');
                 dominantHand = string_or_null (get b (u16 ''dominantHand''));
                 focusArea = string_or_null (get b (u16 ''focusArea''))
             in if falsy image then no_image
                else if no_api_key e then fallback e dominantHand focusArea
                else if \<not> is_string image then fallback e dominantHand focusArea
                else
                  (case fst (callGeminiWithRetry (generateContent e) 2) of
                     Inl error \<Rightarrow> fallback e dominantHand focusArea
                   | Inr (TextThrows error) \<Rightarrow> fallback e dominantHand focusArea
                   | Inr (Text text) \<Rightarrow> normalize_text text)))"

section \<open>The fallback chat responder\<close>





section \<open>The JSON text of a value\<close>









section \<open>Notions of the specification\<close>

text \<open>
  A stand-in for the external model that answers its calls from a list, the first call
  with the first entry, and throws once the list is used up.
\<close>

definition scripted :: "(js_error + model_result) list \<Rightarrow> nat \<Rightarrow> js_error + model_result" where
  "scripted outcomes i =
     (if 1 \<le> i \<and> i \<le> length outcomes then outcomes ! (i - 1)
      else Inl (Error (u16 ''no response'')))"




text \<open>
  A fully populated reading: every line has its observation and its meaning, and
  \<open>overallReading\<close> and \<open>advice\<close> are strings that are not empty.
\<close>

definition line_populated :: "line \<Rightarrow> bool" where
  "line_populated l \<longleftrightarrow> observation l \<noteq> None \<and> meaning l \<noteq> None"

definition fully_populated :: "reading \<Rightarrow> bool" where
  "fully_populated r \<longleftrightarrow>
     line_populated (heartLine r) \<and> line_populated (headLine r) \<and>
     line_populated (lifeLine r) \<and> line_populated (fateLine r) \<and>
     truthy (overallReading r) \<and> truthy (advice r)"




section \<open>\<open>JSON.parse\<close> on the JSON text of a value\<close>



















section \<open>The model call with retries: properties\<close>

text \<open>
  A run of the loop from attempt \<open>a\<close> makes the calls \<open>a\<close> to \<open>k\<close> in order, for the
  \<open>k\<close> of the first call that returns or else \<open>maxRetries\<close>, and sleeps \<open>500 * i\<close>
  after each failed attempt \<open>i\<close> before \<open>k\<close>.
\<close>

lemma retry_loop_events:
  "retry_loop model n a le evs = (r, evs') \<Longrightarrow>
     \<exists>k. (if a \<le> n then a \<le> k \<and> k \<le> n else Suc k = a) \<and>
         calls evs' = calls evs @ [a..<Suc k] \<and>
         sleeps evs' = sleeps evs @ map (\<lambda>i. 500 * i) [a..<k] \<and>
         (case r of
            Inr res \<Rightarrow> a \<le> k \<and> model k = Inr res
          | Inl thrown \<Rightarrow>
              if a \<le> n then k = n \<and> (\<exists>err. model n = Inl err \<and> thrown = Some err)
              else thrown = le)"
proof (induction model n a le evs arbitrary: r evs' rule: retry_loop.induct)
  case (1 model n a le evs)
  show ?case
  proof (cases "a \<le> n")
    case False
    with "1.prems" have "evs' = evs" "r = Inl le" by simp_all
    with False show ?thesis
      by (intro exI [of _ "a - 1"]) auto
  next
    case True
    show ?thesis
    proof (cases "model a")
      case (Inr res)
      with True "1.prems" have "evs' = evs @ [Call a]" "r = Inr res" by simp_all
      with True Inr show ?thesis
        by (intro exI [of _ a]) (auto simp: calls_def sleeps_def)
    next
      case (Inl err)
      let ?evs = "evs @ [Call a, LogFailure a err] @ (if a < n then [Sleep (500 * a)] else [])"
      from True Inl "1.prems" have run: "retry_loop model n (a + 1) (Some err) ?evs = (r, evs')"
        by simp
      from "1.IH" [OF True Inl run] obtain k where
        k1: "if a + 1 \<le> n then a + 1 \<le> k \<and> k \<le> n else Suc k = a + 1" and
        k2: "calls evs' = calls ?evs @ [a + 1..<Suc k]" and
        k3: "sleeps evs' = sleeps ?evs @ map (\<lambda>i. 500 * i) [a + 1..<k]" and
        k4: "case r of
            Inr res \<Rightarrow> a + 1 \<le> k \<and> model k = Inr res
          | Inl thrown \<Rightarrow>
              if a + 1 \<le> n then k = n \<and> (\<exists>err. model n = Inl err \<and> thrown = Some err)
              else thrown = Some err"
        by blast
      have c: "calls ?evs = calls evs @ [a]" by (simp add: calls_def)
      have s: "sleeps ?evs = sleeps evs @ (if a < n then [500 * a] else [])" by (simp add: sleeps_def)
      from k1 True have ak: "a \<le> k" and kn: "k \<le> n" by (auto split: if_splits)
      have "calls evs' = calls evs @ [a..<Suc k]"
        using k2 c ak by (simp add: upt_conv_Cons)
      moreover have "sleeps evs' = sleeps evs @ map (\<lambda>i. 500 * i) [a..<k]"
      proof (cases "a < n")
        case True
        with k1 have "a < k" by simp
        then show ?thesis using k3 s True by (simp add: upt_conv_Cons)
      next
        case False
        with kn ak True have "k = a" by simp
        then show ?thesis using k3 s False by simp
      qed
      moreover have "case r of
            Inr res \<Rightarrow> a \<le> k \<and> model k = Inr res
          | Inl thrown \<Rightarrow>
              if a \<le> n then k = n \<and> (\<exists>err. model n = Inl err \<and> thrown = Some err)
              else thrown = le"
      proof (cases "a < n")
        case True
        then show ?thesis using k4 ak by (auto split: sum.splits)
      next
        case False
        with True have "a = n" by simp
        then show ?thesis using k4 k1 Inl by (auto split: sum.splits)
      qed
      ultimately show ?thesis using ak kn True by (intro exI [of _ k]) simp
    qed
  qed
qed


text \<open>
  Claim C5. The calls of \<open>callGeminiWithRetry\<close> are the attempts 1 to \<open>k\<close> in this order,
  for some \<open>k\<close> that is at most \<open>maxRetries\<close>; the waits are \<open>500 * 1\<close>, ...,
  \<open>500 * (k - 1)\<close> milliseconds, one after each failed attempt that is followed by
  another; a result is the one of call \<open>k\<close>, and what is thrown after \<open>maxRetries\<close>
  failed attempts is the error of the last. With \<open>maxRetries = 2\<close> and a model that
  throws on its first two calls, whatever a third call would do: call, log, wait 500,
  call, log, and the second error is thrown.
\<close>

theorem callGeminiWithRetry_backoff:
  "(\<exists>k \<le> maxRetries.
       calls (snd (callGeminiWithRetry model maxRetries)) = [1..<Suc k] \<and>
       sleeps (snd (callGeminiWithRetry model maxRetries)) = map (\<lambda>i. 500 * i) [1..<k] \<and>
       (case fst (callGeminiWithRetry model maxRetries) of
          Inr result \<Rightarrow> 1 \<le> k \<and> model k = Inr result
        | Inl thrown \<Rightarrow>
            k = maxRetries \<and>
            (1 \<le> maxRetries \<longrightarrow> (\<exists>err. model maxRetries = Inl err \<and> thrown = Some err)))) \<and>
   (model 1 = Inl e1 \<and> model 2 = Inl e2 \<longrightarrow>
      callGeminiWithRetry model 2 =
        (Inl (Some e2), [Call 1, LogFailure 1 e1, Sleep 500, Call 2, LogFailure 2 e2]))"
proof
  obtain r evs where run: "retry_loop model maxRetries 1 None [] = (r, evs)"
    by (cases "retry_loop model maxRetries 1 None []")
  from retry_loop_events [OF run] obtain k where
    k: "if 1 \<le> maxRetries then 1 \<le> k \<and> k \<le> maxRetries else Suc k = 1"
      "calls evs = calls [] @ [1..<Suc k]"
      "sleeps evs = sleeps [] @ map (\<lambda>i. 500 * i) [1..<k]"
      "case r of
            Inr res \<Rightarrow> 1 \<le> k \<and> model k = Inr res
          | Inl thrown \<Rightarrow>
              if 1 \<le> maxRetries then k = maxRetries \<and> (\<exists>err. model maxRetries = Inl err \<and> thrown = Some err)
              else thrown = None"
    by blast
  from k(1) have "k \<le> maxRetries" by (auto split: if_splits)
  moreover from k(1) have "\<not> 1 \<le> maxRetries \<Longrightarrow> k = maxRetries" by (auto split: if_splits)
  ultimately show "\<exists>k \<le> maxRetries.
       calls (snd (callGeminiWithRetry model maxRetries)) = [1..<Suc k] \<and>
       sleeps (snd (callGeminiWithRetry model maxRetries)) = map (\<lambda>i. 500 * i) [1..<k] \<and>
       (case fst (callGeminiWithRetry model maxRetries) of
          Inr result \<Rightarrow> 1 \<le> k \<and> model k = Inr result
        | Inl thrown \<Rightarrow>
            k = maxRetries \<and>
            (1 \<le> maxRetries \<longrightarrow> (\<exists>err. model maxRetries = Inl err \<and> thrown = Some err)))"
    using k(2-4) run
    by (intro exI [of _ k]) (auto simp: callGeminiWithRetry_def calls_def sleeps_def split: sum.splits if_splits)
next
  show "model 1 = Inl e1 \<and> model 2 = Inl e2 \<longrightarrow>
      callGeminiWithRetry model 2 =
        (Inl (Some e2), [Call 1, LogFailure 1 e1, Sleep 500, Call 2, LogFailure 2 e2])"
    by (simp add: callGeminiWithRetry_def numeral_2_eq_2)
qed

theorem callGeminiWithRetry_backoff_witness:
  "callGeminiWithRetry (\<lambda>i. if i < 3 then Inl (Error (u16 ''503'')) else Inr (Text (u16 ''{}''))) 2 =
     (Inl (Some (Error (u16 ''503''))),
      [Call 1, LogFailure 1 (Error (u16 ''503'')), Sleep 500,
       Call 2, LogFailure 2 (Error (u16 ''503''))])"
  using callGeminiWithRetry_backoff
    [of 2 "\<lambda>i. if i < 3 then Inl (Error (u16 ''503'')) else Inr (Text (u16 ''{}''))"
        "Error (u16 ''503'')" "Error (u16 ''503'')"]
  by simp

section \<open>The fallback reading generator: properties\<close>

text \<open>
  Claim C8. Two runs of \<open>generateLocalReading\<close> that read the same time from the clock
  and get the same \<open>dominantHand\<close> and \<open>focusArea\<close> return the same reading, whatever
  else differs between the two environments.
\<close>

theorem generateLocalReading_deterministic:
  "Date_now e1 = Date_now e2 \<Longrightarrow>
     generateLocalReading e1 dominantHand focusArea = generateLocalReading e2 dominantHand focusArea"
  by (simp add: generateLocalReading_def)

theorem generateLocalReading_deterministic_witness:
  "Date_now \<lparr>Date_now = 1700000000000, GEMINI_API_KEY = None, generateContent = (\<lambda>i. Inl (Error []))\<rparr> =
   Date_now \<lparr>Date_now = 1700000000000, GEMINI_API_KEY = Some (u16 ''k''), generateContent = (\<lambda>i. Inr (Text []))\<rparr> \<and>
   generateLocalReading \<lparr>Date_now = 1700000000000, GEMINI_API_KEY = None, generateContent = (\<lambda>i. Inl (Error []))\<rparr>
       (Some (u16 ''left'')) (Some (u16 ''career'')) =
   generateLocalReading \<lparr>Date_now = 1700000000000, GEMINI_API_KEY = Some (u16 ''k''), generateContent = (\<lambda>i. Inr (Text []))\<rparr>
       (Some (u16 ''left'')) (Some (u16 ''career''))"
  using generateLocalReading_deterministic
    [of "\<lparr>Date_now = 1700000000000, GEMINI_API_KEY = None, generateContent = (\<lambda>i. Inl (Error []))\<rparr>"
        "\<lparr>Date_now = 1700000000000, GEMINI_API_KEY = Some (u16 ''k''), generateContent = (\<lambda>i. Inr (Text []))\<rparr>"
        "Some (u16 ''left'')" "Some (u16 ''career'')"]
  by simp


section \<open>The reading endpoint: properties\<close>

lemma parse_empty_object: "JSON_parse (u16 ''{}'') = Some (JObj [])"
  by (simp add: JSON_parse_def u16_def json_ws_def token_at_def punctuation_def)


text \<open>
  Claim C7. A request whose body is JSON other than \<open>null\<close> and has no \<open>image\<close> (or a
  falsy one) gets the response 400 \<open>No image provided\<close>, never a generated reading, in
  every environment: the key is read only after the image.
\<close>

theorem POST_no_image:
  "JSON_parse request = Some b \<Longrightarrow> b \<noteq> JNull \<Longrightarrow> falsy (get b (u16 ''image'')) \<Longrightarrow>
     POST e request = no_image \<and> status (POST e request) = 400 \<and>
     (\<forall>dominantHand focusArea. POST e request \<noteq> fallback e dominantHand focusArea)"
  by (simp add: POST_def no_image_def fallback_def)

theorem POST_no_image_witness:
  "JSON_parse (u16 ''{}'') = Some (JObj []) \<and> JObj [] \<noteq> JNull \<and> falsy (get (JObj []) (u16 ''image'')) \<and>
   POST \<lparr>Date_now = 1700000000000, GEMINI_API_KEY = Some (u16 ''key''), generateContent = (\<lambda>i. Inr (Text []))\<rparr> (u16 ''{}'') = no_image \<and>
   POST \<lparr>Date_now = 1700000000000, GEMINI_API_KEY = None, generateContent = (\<lambda>i. Inr (Text []))\<rparr> (u16 ''{}'') = no_image"
  using POST_no_image [OF parse_empty_object, of "\<lparr>Date_now = 1700000000000, GEMINI_API_KEY = Some (u16 ''key''), generateContent = (\<lambda>i. Inr (Text []))\<rparr>"]
    POST_no_image [OF parse_empty_object, of "\<lparr>Date_now = 1700000000000, GEMINI_API_KEY = None, generateContent = (\<lambda>i. Inr (Text []))\<rparr>"]
    parse_empty_object
  by simp

section \<open>Evaluating \<open>JSON.parse\<close> on given texts\<close>



















section \<open>The reading endpoint: the paths of the handler\<close>
















section \<open>The fallback chat responder: properties\<close>









section \<open>The fallback reading generator: what it selects\<close>

text \<open>
  \<open>pick\<close> always selects an element of a pool. \<open>pick2\<close> and \<open>pick3\<close> select one when
  the seed converts to a 32-bit integer that is not negative.
\<close>

lemma pick_Some:
  "arr \<noteq> [] \<Longrightarrow> pick seed arr = Some (arr ! (seed mod length arr))"
proof -
  assume a: "arr \<noteq> []"
  have "int seed mod int (length arr) = int (seed mod length arr)" by (simp add: zmod_int)
  moreover have "seed mod length arr < length arr" using a by simp
  ultimately show ?thesis by (simp add: pick_def js_at_def js_rem_def)
qed

lemma shifted_index:
  assumes "0 \<le> toInt32 x" "arr \<noteq> []"
  shows "js_at arr (js_rem (shift_right x k) (int (length arr))) =
           Some (arr ! nat (shift_right x k mod int (length arr)))"
proof -
  have n: "0 \<le> shift_right x k" using assms(1) by (simp add: shift_right_def pos_imp_zdiv_nonneg_iff)
  have l: "0 < int (length arr)" using assms(2) by simp
  have "0 \<le> shift_right x k mod int (length arr)" "shift_right x k mod int (length arr) < int (length arr)"
    using l by simp_all
  with n show ?thesis by (simp add: js_at_def js_rem_def)
qed

lemma pick2_Some:
  "0 \<le> toInt32 (int seed) \<Longrightarrow> arr \<noteq> [] \<Longrightarrow>
     pick2 seed arr = Some (arr ! nat (shift_right (int seed) 4 mod int (length arr)))"
  by (simp add: pick2_def shifted_index)

lemma pick3_Some:
  "0 \<le> toInt32 (int seed) \<Longrightarrow> arr \<noteq> [] \<Longrightarrow>
     pick3 seed arr = Some (arr ! nat (shift_right (int seed) 8 mod int (length arr)))"
  by (simp add: pick3_def shifted_index)

lemma pools_nonempty:
  "heartObservations \<noteq> []" "heartMeanings \<noteq> []" "headObservations \<noteq> []" "headMeanings \<noteq> []"
  "lifeObservations \<noteq> []" "lifeMeanings \<noteq> []" "adviceList \<noteq> []" "overallReadings h f \<noteq> []"
  by (simp_all add: heartObservations_def heartMeanings_def headObservations_def headMeanings_def
      lifeObservations_def lifeMeanings_def adviceList_def overallReadings_def)

lemma length_overallReadings: "length (overallReadings h f) = 5"
  by (simp add: overallReadings_def)

lemma adviceList_nonempty_strings: "s \<in> set adviceList \<Longrightarrow> s \<noteq> []"
  by (auto simp: adviceList_def u16_def)

lemma overallReadings_nonempty_strings: "s \<in> set (overallReadings h f) \<Longrightarrow> s \<noteq> []"
  by (auto simp: overallReadings_def u16_def)

lemma generateLocalReading_fully_populated:
  assumes "0 \<le> toInt32 (int (Date_now e))"
  shows "fully_populated (generateLocalReading e h f)"
proof -
  let ?s = "Date_now e"
  have a: "truthy (pick ?s adviceList)"
    using adviceList_nonempty_strings [of "adviceList ! (?s mod length adviceList)"] pools_nonempty(7)
    by (simp add: pick_Some truthy_def)
  have "nat (shift_right (int ?s) 8 mod 5) < 5" by simp
  then have "overallReadings h f ! nat (shift_right (int ?s) 8 mod 5) \<in> set (overallReadings h f)"
    by (simp only: nth_mem length_overallReadings)
  then have o: "truthy (pick3 ?s (overallReadings h f))"
    using assms overallReadings_nonempty_strings [of _ h f]
    by (simp add: pick3_Some pools_nonempty length_overallReadings truthy_def)
  show ?thesis
    using assms a o
    by (simp add: fully_populated_def line_populated_def generateLocalReading_def Let_def
        pick_Some pick2_Some pools_nonempty)
qed

lemma templates_differ:
  "i < 5 \<Longrightarrow> j < 5 \<Longrightarrow>
     (overallReadings (Some (u16 ''left'')) (Some (u16 ''career'')) ! j = overallReadings None None ! i)
       = (i = 2 \<and> j = 2)"
proof -
  assume "i < 5" "j < 5"
  then have "i \<in> {0, 1, 2, 3, 4}" "j \<in> {0, 1, 2, 3, 4}" by auto
  then show ?thesis
    by (auto simp: overallReadings_def truthy_def u16_def)
qed

text \<open>
  At the time 1700000000000 (14 November 2023) the seed converts to the 32-bit integer
  -807049216; both shifted indices are -1, and the meanings and \<open>overallReading\<close> are
  \<open>undefined\<close>.
\<close>

lemma generateLocalReading_at_negative_seed:
  "overallReading (generateLocalReading \<lparr>Date_now = 1700000000000, GEMINI_API_KEY = k, generateContent = m\<rparr> h f) = None \<and>
   meaning (heartLine (generateLocalReading \<lparr>Date_now = 1700000000000, GEMINI_API_KEY = k, generateContent = m\<rparr> h f)) = None \<and>
   observation (heartLine (generateLocalReading \<lparr>Date_now = 1700000000000, GEMINI_API_KEY = k, generateContent = m\<rparr> h f)) \<noteq> None"
  by (simp add: generateLocalReading_def pick_Some pools_nonempty pick2_def pick3_def js_at_def
      js_rem_def shift_right_def toInt32_def length_overallReadings heartMeanings_def)

text \<open>
  Claim C4, as amended. When the times of the two calls convert to 32-bit integers that
  are not negative, \<open>generateLocalReading(null, null)\<close> and
  \<open>generateLocalReading("left", "career")\<close> both return a fully populated reading, and
  their \<open>overallReading\<close> texts are equal exactly when both calls select the third
  template (index 2), whose clause only tells \<open>"right"\<close> from everything else.
\<close>

theorem generateLocalReading_contexts:
  assumes "0 \<le> toInt32 (int (Date_now e1))" and "0 \<le> toInt32 (int (Date_now e2))"
  shows "fully_populated (generateLocalReading e1 None None) \<and>
         fully_populated (generateLocalReading e2 (Some (u16 ''left'')) (Some (u16 ''career''))) \<and>
         (overallReading (generateLocalReading e2 (Some (u16 ''left'')) (Some (u16 ''career''))) =
            overallReading (generateLocalReading e1 None None) \<longleftrightarrow>
          shift_right (int (Date_now e1)) 8 mod 5 = 2 \<and> shift_right (int (Date_now e2)) 8 mod 5 = 2)"
proof -
  let ?i = "nat (shift_right (int (Date_now e1)) 8 mod 5)"
  let ?j = "nat (shift_right (int (Date_now e2)) 8 mod 5)"
  have i: "?i < 5" and j: "?j < 5" by simp_all
  have o1: "overallReading (generateLocalReading e1 None None) = Some (overallReadings None None ! ?i)"
    using assms(1) by (simp add: generateLocalReading_def Let_def pick3_Some pools_nonempty length_overallReadings)
  have o2: "overallReading (generateLocalReading e2 (Some (u16 ''left'')) (Some (u16 ''career''))) =
      Some (overallReadings (Some (u16 ''left'')) (Some (u16 ''career'')) ! ?j)"
    using assms(2) by (simp add: generateLocalReading_def Let_def pick3_Some pools_nonempty length_overallReadings)
  have "(?i = 2 \<and> ?j = 2) =
      (shift_right (int (Date_now e1)) 8 mod 5 = 2 \<and> shift_right (int (Date_now e2)) 8 mod 5 = 2)"
    by auto
  with templates_differ [OF i j] o1 o2 generateLocalReading_fully_populated assms
  show ?thesis by simp
qed

theorem generateLocalReading_contexts_witness:
  "0 \<le> toInt32 (int (Date_now \<lparr>Date_now = 1750000000000, GEMINI_API_KEY = None, generateContent = scripted []\<rparr>)) \<and>
   fully_populated (generateLocalReading \<lparr>Date_now = 1750000000000, GEMINI_API_KEY = None, generateContent = scripted []\<rparr>
     (Some (u16 ''left'')) (Some (u16 ''career''))) \<and>
   overallReading (generateLocalReading \<lparr>Date_now = 1750000000000, GEMINI_API_KEY = None, generateContent = scripted []\<rparr>
     (Some (u16 ''left'')) (Some (u16 ''career''))) \<noteq>
   overallReading (generateLocalReading \<lparr>Date_now = 1750000000000, GEMINI_API_KEY = None, generateContent = scripted []\<rparr>
     None None)"
proof -
  have t: "toInt32 (int (Date_now \<lparr>Date_now = 1750000000000, GEMINI_API_KEY = None, generateContent = scripted []\<rparr>)) = 1948310528"
    by (simp add: toInt32_def)
  then have s: "shift_right (int (Date_now \<lparr>Date_now = 1750000000000, GEMINI_API_KEY = None, generateContent = scripted []\<rparr>)) 8 mod 5 = 3"
    by (simp add: shift_right_def)
  from t have p: "0 \<le> toInt32 (int (Date_now \<lparr>Date_now = 1750000000000, GEMINI_API_KEY = None, generateContent = scripted []\<rparr>))"
    by simp
  from generateLocalReading_contexts [OF p p] s p show ?thesis by simp
qed

text \<open>
  Claim C4 as first stated fails: at the time 1705184246900 (13 January 2024) both calls
  select the third template, and the two texts are the same.
\<close>

theorem generateLocalReading_contexts_counterexample:
  "overallReading (generateLocalReading \<lparr>Date_now = 1705184246900, GEMINI_API_KEY = None, generateContent = scripted []\<rparr>
     (Some (u16 ''left'')) (Some (u16 ''career''))) =
   overallReading (generateLocalReading \<lparr>Date_now = 1705184246900, GEMINI_API_KEY = None, generateContent = scripted []\<rparr>
     None None) \<and>
   overallReading (generateLocalReading \<lparr>Date_now = 1705184246900, GEMINI_API_KEY = None, generateContent = scripted []\<rparr>
     None None) = Some (overallReadings None None ! 2)"
proof -
  have t: "toInt32 1705184246900 = 82230388" by (simp add: toInt32_def)
  then have s: "shift_right 1705184246900 8 = 321212" by (simp add: shift_right_def)
  have "pick3 1705184246900 (overallReadings h f) = Some (overallReadings h f ! 2)" for h f
    using t s by (simp add: pick3_Some pools_nonempty length_overallReadings)
  moreover have "overallReadings (Some (u16 ''left'')) (Some (u16 ''career'')) ! 2 = overallReadings None None ! 2"
    using templates_differ [of 2 2] by simp
  ultimately show ?thesis by (simp add: generateLocalReading_def)
qed

section \<open>The field-pair invariant\<close>









section \<open>White space and fences around JSON text\<close>


























end
